theory Spec2Isabelle
  imports Main
begin

section \<open>Strings and arrays of the host language\<close>

text \<open>
  A JavaScript string is a sequence of UTF-16 code units. It is modelled as a
  \<^typ>\<open>string\<close>, one \<^typ>\<open>char\<close> per code unit, which covers the code units
  below 256. Lengths and indices count code units, as \<^verbatim>\<open>slice\<close> does.
\<close>

text \<open>
  The white space and line terminator code units that \<^verbatim>\<open>String.prototype.trim\<close>
  removes and that \<^verbatim>\<open>\s\<close> matches in a regular expression (the two sets are the
  same in ECMAScript): TAB, LF, VT, FF, CR, SP and NBSP below 256.
\<close>

definition isWhiteSpace :: "char \<Rightarrow> bool" where
  "isWhiteSpace c =
     (c = CHR 0x09 \<or> c = CHR 0x0A \<or> c = CHR 0x0B \<or> c = CHR 0x0C \<or>
      c = CHR 0x0D \<or> c = CHR 0x20 \<or> c = CHR 0xA0)"

definition trimStart :: "string \<Rightarrow> string" where
  "trimStart s = dropWhile isWhiteSpace s"

definition trimEnd :: "string \<Rightarrow> string" where
  "trimEnd s = rev (dropWhile isWhiteSpace (rev s))"

definition trim :: "string \<Rightarrow> string" where
  "trim s = trimEnd (trimStart s)"

definition startsWith :: "string \<Rightarrow> string \<Rightarrow> bool" where
  "startsWith s p = (take (length p) s = p)"

definition endsWith :: "string \<Rightarrow> string \<Rightarrow> bool" where
  "endsWith s p = (length p \<le> length s \<and> drop (length s - length p) s = p)"

text \<open>
  \<^verbatim>\<open>slice(start, end)\<close> of ECMAScript, for strings and arrays alike: a negative
  index counts from the end, both indices are clamped to the length, and a missing
  \<^verbatim>\<open>end\<close> is the length.
\<close>

definition slice :: "'a list \<Rightarrow> int \<Rightarrow> int option \<Rightarrow> 'a list" where
  "slice xs start end =
     (let len = int (length xs);
          from = (if start < 0 then max (len + start) 0 else min start len);
          e = (case end of None \<Rightarrow> len | Some v \<Rightarrow> v);
          to = (if e < 0 then max (len + e) 0 else min e len)
      in take (nat (max (to - from) 0)) (drop (nat from) xs))"

text \<open>\<^verbatim>\<open>Array.prototype.join\<close> on an array of strings.\<close>

fun join :: "string \<Rightarrow> string list \<Rightarrow> string" where
  "join sep [] = []"
| "join sep [x] = x"
| "join sep (x # y # ys) = x @ sep @ join sep (y # ys)"

text \<open>
  \<^verbatim>\<open>Number.prototype.toString\<close> on a non-negative integer (a clock reading, a page
  number): its decimal digits.
\<close>

definition digit :: "nat \<Rightarrow> char" where
  "digit d = ''0123456789'' ! d"

fun toString :: "nat \<Rightarrow> string" where
  "toString n = (if n < 10 then [digit n] else toString (n div 10) @ [digit (n mod 10)])"

declare toString.simps [simp del]

section \<open>Types of the application\<close>

datatype CodeType = EXPERT_ADVISOR | INDICATOR | SCRIPT | LIBRARY

text \<open>The string value of each enum member, which a template literal interpolates.\<close>

fun CodeType_value :: "CodeType \<Rightarrow> string" where
  "CodeType_value EXPERT_ADVISOR = ''Expert Advisor''"
| "CodeType_value INDICATOR = ''Indicator''"
| "CodeType_value SCRIPT = ''Script''"
| "CodeType_value LIBRARY = ''Library''"

record GenerationHistoryItem =
  item_id :: string
  item_prompt :: string
  item_type :: CodeType
  item_code :: string
  item_timestamp :: nat

datatype ChatRole = user | model

record ChatMessage =
  msg_id :: string
  role :: ChatRole
  content :: string
  hasCodeUpdate :: "bool option"
  timestamp :: nat

section \<open>The generative-AI adapter\<close>

subsection \<open>Cleaning the reply\<close>

text \<open>
  \<^verbatim>\<open>s.replace(/^FENCE\s*/, '')\<close> for a literal \<open>fence\<close>: when the string starts with
  the fence, the fence and the white space after it are removed.
\<close>

definition replace_leading_fence :: "string \<Rightarrow> string \<Rightarrow> string" where
  "replace_leading_fence fence s =
     (if startsWith s fence then dropWhile isWhiteSpace (drop (length fence) s) else s)"

text \<open>
  \<^verbatim>\<open>s.replace(/\s*```$/, '')\<close>: the pattern is anchored at the end of the string (no
  multiline flag), and the leftmost match starts at the white space run before the
  last three backticks. A string that does not end with three backticks is unchanged.
\<close>

definition replace_trailing_fence :: "string \<Rightarrow> string" where
  "replace_trailing_fence s =
     (if endsWith s ''```'' then trimEnd (take (length s - 3) s) else s)"

definition cleanJsonOutput :: "string \<Rightarrow> string" where
  "cleanJsonOutput text =
     (let cleanText = trim text in
      if startsWith cleanText ''```json''
      then replace_trailing_fence (replace_leading_fence ''```json'' cleanText)
      else if startsWith cleanText ''```''
      then replace_trailing_fence (replace_leading_fence ''```'' cleanText)
      else cleanText)"

subsection \<open>Building the prompts\<close>

text \<open>
  An optional string parameter is a \<^typ>\<open>string option\<close>, \<open>None\<close> for
  \<^verbatim>\<open>undefined\<close>. It is truthy when it is a non-empty string.
\<close>

fun truthy :: "string option \<Rightarrow> bool" where
  "truthy None = False"
| "truthy (Some s) = (s \<noteq> [])"

text \<open>
  The template of the documentation section of a generation request, before and
  after the interpolated \<^verbatim>\<open>documentationContext.slice(0, 500000)\<close>.
\<close>

definition documentation_header :: string where
  "documentation_header =
     ''\<newline>    \<newline>    REFERENCE DOCUMENTATION:\<newline>'' @
     ''    The user has provided the following documentation/context to assist with this task. \<newline>'' @
     ''    Use the functions, syntax, and libraries defined in this documentation where applicable, especially if they differ from standard libraries.\<newline>'' @
     ''    \<newline>    --- BEGIN DOCUMENTATION ---\<newline>    ''"

definition documentation_footer :: string where
  "documentation_footer =
     '' \<newline>    --- END DOCUMENTATION ---\<newline>'' @
     ''    (Note: Documentation may be truncated if it exceeds limits, prioritize recent API usage)\<newline>    ''"

definition generate_documentation_section :: "string \<Rightarrow> string" where
  "generate_documentation_section documentationContext =
     documentation_header @ slice documentationContext 0 (Some 500000) @
     documentation_footer"

text \<open>The \<^verbatim>\<open>contents\<close> of the request that \<^verbatim>\<open>generateMql5\<close> sends.\<close>

definition generateMql5_fullPrompt :: "string \<Rightarrow> CodeType \<Rightarrow> string option \<Rightarrow> string" where
  "generateMql5_fullPrompt prompt type documentationContext =
     (''\<newline>    Create an MQL5 '' @ CodeType_value type @
      ''.\<newline>    \<newline>    User Requirement:\<newline>    '' @ prompt @ ''\<newline>  '') @
     (case documentationContext of
        None \<Rightarrow> []
      | Some d \<Rightarrow> if truthy (Some d) then generate_documentation_section d else []) @
     ''\<newline>    Ensure the code is complete and compilable in MetaEditor.\<newline>  ''"

definition role_label :: "ChatMessage \<Rightarrow> string" where
  "role_label msg = (if role msg = user then ''User'' else ''Assistant'') @ '': '' @ content msg"

definition conversationContext :: "ChatMessage list \<Rightarrow> string" where
  "conversationContext chatHistory =
     join ''\<newline>'' (map role_label (slice chatHistory (- 10) None))"

definition chat_documentation_section :: "string \<Rightarrow> string" where
  "chat_documentation_section documentationContext =
     ''\<newline>    REFERENCE DOCUMENTATION:\<newline>    '' @
     slice documentationContext 0 (Some 100000) @ ''\<newline>    ''"

text \<open>The \<^verbatim>\<open>contents\<close> of the request that \<^verbatim>\<open>chatWithCode\<close> sends.\<close>

definition chatWithCode_fullPrompt ::
    "string \<Rightarrow> ChatMessage list \<Rightarrow> string \<Rightarrow> string option \<Rightarrow> string" where
  "chatWithCode_fullPrompt currentCode chatHistory userMessage documentationContext =
     (''\<newline>    CURRENT MQL5 CODE CONTEXT:\<newline>    ```mql5\<newline>    '' @ currentCode @
      ''\<newline>    ```\<newline>\<newline>    CONVERSATION HISTORY:\<newline>    '' @
      conversationContext chatHistory @
      ''\<newline>\<newline>    USER REQUEST:\<newline>    '' @ userMessage @ ''\<newline>  '') @
     (case documentationContext of
        None \<Rightarrow> []
      | Some d \<Rightarrow> if truthy (Some d) then chat_documentation_section d else [])"

subsection \<open>Calling the model\<close>

text \<open>A thrown value: an \<^verbatim>\<open>Error\<close> with its message.\<close>

datatype js_error = Error string

text \<open>
  The generative-AI client is an opaque collaborator: \<open>generateContent\<close> maps the
  request to a rejection or to a response whose text may be undefined. The
  request is its \<open>contents\<close> and the system instruction, one of two constants.
  \<^verbatim>\<open>JSON.parse\<close> is the host's: a parameter that throws or returns the value at the
  declared result type.
\<close>

datatype instruction = SYSTEM_INSTRUCTION | CHAT_SYSTEM_INSTRUCTION

record GenerateContentParameters =
  contents :: string
  systemInstruction :: instruction

record GenerateContentResponse =
  response_text :: "string option"

type_synonym GoogleGenAI = "GenerateContentParameters \<Rightarrow> js_error + GenerateContentResponse"

record GenerateResult =
  res_code :: string
  res_explanation :: string

record ChatResult =
  reply :: string
  updatedCode :: "string option"

text \<open>
  The body of both \<^verbatim>\<open>try\<close> blocks after the call: a truthy text is cleaned and
  parsed, anything else throws. The \<^verbatim>\<open>catch\<close> logs and rethrows the same error.
\<close>

definition parse_response ::
    "(string \<Rightarrow> js_error + 'r) \<Rightarrow> js_error + GenerateContentResponse \<Rightarrow> js_error + 'r" where
  "parse_response JSON_parse outcome =
     (case outcome of
        Inl e \<Rightarrow> Inl e
      | Inr response \<Rightarrow>
          if truthy (response_text response)
          then (case response_text response of
                  Some t \<Rightarrow> JSON_parse (cleanJsonOutput t)
                | None \<Rightarrow> Inl (Error ''No response generated''))
          else Inl (Error ''No response generated''))"

definition generateMql5_request :: "string \<Rightarrow> CodeType \<Rightarrow> string option \<Rightarrow> GenerateContentParameters" where
  "generateMql5_request prompt type documentationContext =
     \<lparr>contents = generateMql5_fullPrompt prompt type documentationContext,
      systemInstruction = SYSTEM_INSTRUCTION\<rparr>"

definition generateMql5 ::
    "GoogleGenAI \<Rightarrow> (string \<Rightarrow> js_error + GenerateResult) \<Rightarrow>
     string \<Rightarrow> CodeType \<Rightarrow> string option \<Rightarrow> js_error + GenerateResult" where
  "generateMql5 ai JSON_parse prompt type documentationContext =
     parse_response JSON_parse (ai (generateMql5_request prompt type documentationContext))"

definition chatWithCode_request ::
    "string \<Rightarrow> ChatMessage list \<Rightarrow> string \<Rightarrow> string option \<Rightarrow> GenerateContentParameters" where
  "chatWithCode_request currentCode chatHistory userMessage documentationContext =
     \<lparr>contents =
        chatWithCode_fullPrompt currentCode chatHistory userMessage documentationContext,
      systemInstruction = CHAT_SYSTEM_INSTRUCTION\<rparr>"

definition chatWithCode ::
    "GoogleGenAI \<Rightarrow> (string \<Rightarrow> js_error + ChatResult) \<Rightarrow>
     string \<Rightarrow> ChatMessage list \<Rightarrow> string \<Rightarrow> string option \<Rightarrow> js_error + ChatResult" where
  "chatWithCode ai JSON_parse currentCode chatHistory userMessage documentationContext =
     parse_response JSON_parse
       (ai (chatWithCode_request currentCode chatHistory userMessage documentationContext))"

section \<open>The PDF adapter\<close>

text \<open>
  The PDF library is an opaque collaborator. A file gives its bytes or fails;
  \<open>getDocument\<close> loads a document or fails; a document reports \<open>numPages\<close> and gives
  a page by number or fails; a page gives its text content or fails.
\<close>

record TextItem =
  str :: string

record TextContent =
  items :: "TextItem list"

record PDFPageProxy =
  getTextContent :: "js_error + TextContent"

record PDFDocumentProxy =
  numPages :: nat
  getPage :: "nat \<Rightarrow> js_error + PDFPageProxy"

record File =
  file_name :: string
  file_type :: string
  arrayBuffer :: "js_error + nat list"

type_synonym pdfjs = "nat list \<Rightarrow> js_error + PDFDocumentProxy"

definition page_header :: "nat \<Rightarrow> string" where
  "page_header i = ''\<newline>--- Page '' @ toString i @ '' ---\<newline>''"

text \<open>
  The first three statements of the loop body: the page, its text content, and
  \<open>pageText\<close>, the \<open>str\<close> of its items joined by spaces; any of the two calls
  may throw.
\<close>

definition read_page :: "PDFDocumentProxy \<Rightarrow> nat \<Rightarrow> js_error + string" where
  "read_page doc i =
     (case getPage doc i of
        Inl e \<Rightarrow> Inl e
      | Inr page \<Rightarrow>
          (case getTextContent page of
             Inl e \<Rightarrow> Inl e
           | Inr textContent \<Rightarrow> Inr (join '' '' (map str (items textContent)))))"

text \<open>The \<^verbatim>\<open>for\<close> loop over the pages, from the current \<open>i\<close> with the text so far.\<close>

function extract_pages :: "PDFDocumentProxy \<Rightarrow> nat \<Rightarrow> nat \<Rightarrow> string \<Rightarrow> js_error + string" where
  "extract_pages doc totalPages i fullText =
     (if i \<le> totalPages
      then (case read_page doc i of
              Inl e \<Rightarrow> Inl e
            | Inr pageText \<Rightarrow>
                extract_pages doc totalPages (i + 1) (fullText @ page_header i @ pageText))
      else Inr fullText)"
  by pat_completeness auto
termination
  by (relation "measure (\<lambda>(doc, totalPages, i, fullText). totalPages + 1 - i)") auto

declare extract_pages.simps [simp del]

definition extractTextFromPdf :: "pdfjs \<Rightarrow> File \<Rightarrow> js_error + string" where
  "extractTextFromPdf getDocument file =
     (case (case arrayBuffer file of
              Inl e \<Rightarrow> Inl e
            | Inr data \<Rightarrow>
                (case getDocument data of
                   Inl e \<Rightarrow> Inl e
                 | Inr doc \<Rightarrow> extract_pages doc (numPages doc) 1 [])) of
        Inl e \<Rightarrow>
          Inl (Error ''Failed to extract text from PDF. The file might be corrupted or encrypted.'')
      | Inr fullText \<Rightarrow> Inr fullText)"

section \<open>The view state and its event handlers\<close>

datatype tab = history_tab | chat_tab

record AppState =
  prompt :: string
  codeType :: CodeType
  isGenerating :: bool
  currentCode :: string
  explanation :: string
  error :: "string option"
  activeTab :: tab
  history :: "GenerationHistoryItem list"
  chatMessages :: "ChatMessage list"
  chatInput :: string
  isChatLoading :: bool
  uploadedFile :: "File option"
  pdfContent :: string
  isParsingPdf :: bool
  isDragging :: bool

definition initial_state :: AppState where
  "initial_state =
     \<lparr>prompt = [], codeType = EXPERT_ADVISOR, isGenerating = False,
      currentCode = ''// Your MQL5 code will appear here...'', explanation = [],
      error = None, activeTab = chat_tab, history = [], chatMessages = [],
      chatInput = [], isChatLoading = False, uploadedFile = None, pdfContent = [],
      isParsingPdf = False, isDragging = False\<rparr>"

text \<open>
  An async handler runs up to its \<^verbatim>\<open>await\<close>, where it hands the adapter call over
  and returns; its continuation runs when the call settles, on the state of that
  moment, with the values the closure captured. A handler is therefore two
  functions: the first returns the new state and the call it leaves pending (if
  any), the second takes the outcome of the call. A state update written
  \<^verbatim>\<open>setX(prev => ...)\<close> reads the state it is applied to; \<^verbatim>\<open>Date.now()\<close> is an
  argument, one per call.
\<close>

datatype pending =
    PendingExtract File
  | PendingGenerate string CodeType string
  | PendingChat string "ChatMessage list" string string

text \<open>\<^verbatim>\<open>err.message || fallback\<close>.\<close>

fun message_or :: "js_error \<Rightarrow> string \<Rightarrow> string" where
  "message_or (Error m) fallback = (if m \<noteq> [] then m else fallback)"

subsection \<open>Uploading a PDF\<close>

definition processFile :: "File \<Rightarrow> AppState \<Rightarrow> AppState \<times> pending option" where
  "processFile file st =
     (if file_type file \<noteq> ''application/pdf''
      then (st\<lparr>error := Some ''Please upload a valid PDF file.''\<rparr>, None)
      else (st\<lparr>uploadedFile := Some file, isParsingPdf := True, error := None\<rparr>,
            Some (PendingExtract file)))"

definition processFile_settled :: "js_error + string \<Rightarrow> AppState \<Rightarrow> AppState" where
  "processFile_settled outcome st =
     (case outcome of
        Inr txt \<Rightarrow> st\<lparr>pdfContent := txt\<rparr>
      | Inl err \<Rightarrow>
          st\<lparr>error := Some (message_or err ''Failed to parse PDF.''),
             uploadedFile := None, pdfContent := []\<rparr>)
     \<lparr>isParsingPdf := False\<rparr>"

text \<open>The whole of \<^verbatim>\<open>processFile\<close> when no other event comes in between.\<close>

definition processFile_run :: "pdfjs \<Rightarrow> File \<Rightarrow> AppState \<Rightarrow> AppState" where
  "processFile_run getDocument file st =
     (case processFile file st of
        (st1, Some (PendingExtract f)) \<Rightarrow>
          processFile_settled (extractTextFromPdf getDocument f) st1
      | (st1, _) \<Rightarrow> st1)"

definition handleFileChange :: "File option \<Rightarrow> AppState \<Rightarrow> AppState \<times> pending option" where
  "handleFileChange file st =
     (case file of None \<Rightarrow> (st, None) | Some f \<Rightarrow> processFile f st)"

definition handleDragEnter :: "AppState \<Rightarrow> AppState" where
  "handleDragEnter st = st\<lparr>isDragging := True\<rparr>"

definition handleDragLeave :: "bool \<Rightarrow> AppState \<Rightarrow> AppState" where
  "handleDragLeave containsRelatedTarget st =
     (if containsRelatedTarget then st else st\<lparr>isDragging := False\<rparr>)"

definition handleDrop :: "File option \<Rightarrow> AppState \<Rightarrow> AppState \<times> pending option" where
  "handleDrop file st =
     (case file of
        None \<Rightarrow> (st\<lparr>isDragging := False\<rparr>, None)
      | Some f \<Rightarrow> processFile f (st\<lparr>isDragging := False\<rparr>))"

definition removeFile :: "AppState \<Rightarrow> AppState" where
  "removeFile st = st\<lparr>uploadedFile := None, pdfContent := []\<rparr>"

subsection \<open>Generating code\<close>

definition handleGenerate :: "AppState \<Rightarrow> AppState \<times> pending option" where
  "handleGenerate st =
     (if trim (prompt st) = [] then (st, None)
      else (st\<lparr>isGenerating := True, error := None, explanation := [],
               activeTab := chat_tab,
               currentCode := ''// Analyzing requirements...\<newline>// Reading documentation context...\<newline>// Designing trading logic...\<newline>// Generating MQL5 structures...''\<rparr>,
            Some (PendingGenerate (prompt st) (codeType st) (pdfContent st))))"

text \<open>
  The continuation, with the \<open>prompt\<close> and \<open>codeType\<close> of the closure and the four
  clock readings of the success branch, in the order the code takes them.
\<close>

definition handleGenerate_settled ::
    "string \<Rightarrow> CodeType \<Rightarrow> js_error + GenerateResult \<Rightarrow> nat \<Rightarrow> nat \<Rightarrow> nat \<Rightarrow> nat \<Rightarrow>
     AppState \<Rightarrow> AppState" where
  "handleGenerate_settled prompt0 codeType0 outcome now1 now2 now3 now4 st =
     (case outcome of
        Inr result \<Rightarrow>
          (let newHistoryItem =
                 \<lparr>item_id = toString now1, item_prompt = prompt0, item_type = codeType0,
                  item_code = res_code result, item_timestamp = now2\<rparr>
           in st\<lparr>currentCode := res_code result,
                  explanation := res_explanation result,
                  history := newHistoryItem # history st,
                  chatMessages :=
                    [\<lparr>msg_id = toString now3, role = model,
                      content = ''I've generated the '' @ CodeType_value codeType0 @
                        '' code based on your request. '' @ res_explanation result,
                      hasCodeUpdate = None, timestamp = now4\<rparr>]\<rparr>)
      | Inl err \<Rightarrow>
          st\<lparr>error := Some (message_or err ''Failed to generate code. Please try again.''),
             currentCode := ''// Error generating code.''\<rparr>)
     \<lparr>isGenerating := False\<rparr>"

subsection \<open>Chatting about the code\<close>

definition handleChatSubmit :: "nat \<Rightarrow> nat \<Rightarrow> AppState \<Rightarrow> AppState \<times> pending option" where
  "handleChatSubmit now1 now2 st =
     (if trim (chatInput st) = [] \<or> isChatLoading st then (st, None)
      else
        (let userMsg = \<lparr>msg_id = toString now1, role = user, content = chatInput st,
                        hasCodeUpdate = None, timestamp = now2\<rparr>;
             contextCode = (if startsWith (currentCode st) ''// Your MQL5 code''
                            then [] else currentCode st)
         in (st\<lparr>chatMessages := chatMessages st @ [userMsg], chatInput := [],
                 isChatLoading := True\<rparr>,
             Some (PendingChat contextCode (chatMessages st) (content userMsg)
                     (pdfContent st)))))"

definition handleChatSubmit_settled ::
    "js_error + ChatResult \<Rightarrow> nat \<Rightarrow> nat \<Rightarrow> AppState \<Rightarrow> AppState" where
  "handleChatSubmit_settled outcome now1 now2 st =
     (case outcome of
        Inr result \<Rightarrow>
          (let aiMsg = \<lparr>msg_id = toString (now1 + 1), role = model, content = reply result,
                       hasCodeUpdate = Some (truthy (updatedCode result)),
                       timestamp = now2\<rparr>
           in st\<lparr>chatMessages := chatMessages st @ [aiMsg],
                  currentCode := (case updatedCode result of
                                    None \<Rightarrow> currentCode st
                                  | Some c \<Rightarrow> if truthy (Some c) then c else currentCode st)\<rparr>)
      | Inl err \<Rightarrow>
          (let errorMsg = \<lparr>msg_id = toString now1, role = model,
                          content = ''I encountered an error while processing your request. Please try again.'',
                          hasCodeUpdate = None, timestamp = now2\<rparr>
           in st\<lparr>chatMessages := chatMessages st @ [errorMsg]\<rparr>))
     \<lparr>isChatLoading := False\<rparr>"

subsection \<open>Restoring a generation\<close>

definition restoreFromHistory :: "GenerationHistoryItem \<Rightarrow> nat \<Rightarrow> nat \<Rightarrow> AppState \<Rightarrow> AppState" where
  "restoreFromHistory item now1 now2 st =
     st\<lparr>prompt := item_prompt item, codeType := item_type item,
        currentCode := item_code item, explanation := ''// Restored from history'',
        chatMessages :=
          [\<lparr>msg_id = toString now1, role = model,
            content = ''Restored version: '' @ item_prompt item,
            hasCodeUpdate = None, timestamp = now2\<rparr>],
        activeTab := chat_tab\<rparr>"

subsection \<open>Every operation on the state\<close>

text \<open>
  One event per handler call, per continuation and per inline setter of the view.
  A continuation may arrive in any state: other events can come in while the call
  is pending.
\<close>

datatype event =
    SetPrompt string
  | SetCodeType CodeType
  | SetActiveTab tab
  | SetChatInput string
  | FileChange "File option"
  | DragEnter
  | DragLeave bool
  | DragOver
  | Drop "File option"
  | ProcessFileSettled "js_error + string"
  | RemoveFile
  | Generate
  | GenerateSettled string CodeType "js_error + GenerateResult" nat nat nat nat
  | ChatSubmit nat nat
  | ChatSubmitSettled "js_error + ChatResult" nat nat
  | Restore GenerationHistoryItem nat nat

fun apply_event :: "event \<Rightarrow> AppState \<Rightarrow> AppState" where
  "apply_event (SetPrompt v) st = st\<lparr>prompt := v\<rparr>"
| "apply_event (SetCodeType v) st = st\<lparr>codeType := v\<rparr>"
| "apply_event (SetActiveTab v) st = st\<lparr>activeTab := v\<rparr>"
| "apply_event (SetChatInput v) st = st\<lparr>chatInput := v\<rparr>"
| "apply_event (FileChange f) st = fst (handleFileChange f st)"
| "apply_event DragEnter st = handleDragEnter st"
| "apply_event (DragLeave b) st = handleDragLeave b st"
| "apply_event DragOver st = st"
| "apply_event (Drop f) st = fst (handleDrop f st)"
| "apply_event (ProcessFileSettled r) st = processFile_settled r st"
| "apply_event RemoveFile st = removeFile st"
| "apply_event Generate st = fst (handleGenerate st)"
| "apply_event (GenerateSettled p t r n1 n2 n3 n4) st =
     handleGenerate_settled p t r n1 n2 n3 n4 st"
| "apply_event (ChatSubmit n1 n2) st = fst (handleChatSubmit n1 n2 st)"
| "apply_event (ChatSubmitSettled r n1 n2) st = handleChatSubmit_settled r n1 n2 st"
| "apply_event (Restore item n1 n2) st = restoreFromHistory item n1 n2 st"

text \<open>A session: the events in order, from a state.\<close>

fun run :: "event list \<Rightarrow> AppState \<Rightarrow> AppState" where
  "run [] st = st"
| "run (ev # evs) st = run evs (apply_event ev st)"

section \<open>The reply cleaner in the words of the specification\<close>

text \<open>
  The claim's reading of \<^verbatim>\<open>cleanJsonOutput\<close>, word for word: the trimmed string
  with the leading fence and a trailing fence removed, and nothing else, when it
  starts with a fence; the trimmed string otherwise.
\<close>

definition cleanJsonOutput_as_claimed :: "string \<Rightarrow> string" where
  "cleanJsonOutput_as_claimed txt =
     (let t = trim txt;
          unfenced = (\<lambda>s. if endsWith s ''```'' then take (length s - 3) s else s)
      in if startsWith t ''```json'' then unfenced (drop 7 t)
         else if startsWith t ''```'' then unfenced (drop 3 t)
         else t)"

section \<open>Example inputs\<close>


definition example_reply_ai :: GoogleGenAI where
  "example_reply_ai request = Inr \<lparr>response_text = Some ''```json\<newline>{}\<newline>```''\<rparr>"

definition example_silent_ai :: GoogleGenAI where
  "example_silent_ai request = Inr \<lparr>response_text = None\<rparr>"

definition example_failing_ai :: GoogleGenAI where
  "example_failing_ai request = Inl (Error ''503 Service Unavailable'')"

definition example_result :: GenerateResult where
  "example_result = \<lparr>res_code = ''void OnTick() {}'', res_explanation = ''An empty EA.''\<rparr>"

definition example_parse_generate :: "string \<Rightarrow> js_error + GenerateResult" where
  "example_parse_generate s =
     (if s = ''{}'' then Inr example_result else Inl (Error ''SyntaxError''))"

definition example_parse_chat :: "string \<Rightarrow> js_error + ChatResult" where
  "example_parse_chat s =
     (if s = ''{}'' then Inr \<lparr>reply = ''ok'', updatedCode = None\<rparr>
      else Inl (Error ''SyntaxError''))"

definition example_page :: "string list \<Rightarrow> PDFPageProxy" where
  "example_page ws = \<lparr>getTextContent = Inr \<lparr>items = map (\<lambda>w. \<lparr>str = w\<rparr>) ws\<rparr>\<rparr>"

definition example_doc :: PDFDocumentProxy where
  "example_doc =
     \<lparr>numPages = 2,
      getPage = (\<lambda>i. if i = 1 then Inr (example_page [''Order'', ''Send''])
                     else if i = 2 then Inr (example_page [''Tick''])
                     else Inl (Error ''Invalid page request''))\<rparr>"

definition example_broken_doc :: PDFDocumentProxy where
  "example_broken_doc =
     \<lparr>numPages = 2,
      getPage = (\<lambda>i. if i = 1 then Inr (example_page [''Order'', ''Send''])
                     else Inl (Error ''Invalid page request''))\<rparr>"

definition example_unreadable_doc :: PDFDocumentProxy where
  "example_unreadable_doc =
     \<lparr>numPages = 2,
      getPage = (\<lambda>i. if i = 1 then Inr (example_page [''Order'', ''Send''])
                     else Inr \<lparr>getTextContent = Inl (Error ''Unreadable text layer'')\<rparr>)\<rparr>"

definition example_getDocument :: pdfjs where
  "example_getDocument data =
     (if data = [1] then Inr example_doc
      else if data = [2] then Inr example_broken_doc
      else if data = [3] then Inr example_unreadable_doc
      else Inl (Error ''Invalid PDF structure''))"

definition example_file :: "nat list \<Rightarrow> File" where
  "example_file data =
     \<lparr>file_name = ''reference.pdf'', file_type = ''application/pdf'',
      arrayBuffer = Inr data\<rparr>"

definition example_detached_file :: File where
  "example_detached_file =
     \<lparr>file_name = ''gone.pdf'', file_type = ''application/pdf'',
      arrayBuffer = Inl (Error ''The requested file could not be read'')\<rparr>"

definition example_session :: "event list" where
  "example_session =
     [SetPrompt ''ea'', Generate,
      GenerateSettled ''ea'' EXPERT_ADVISOR (Inr example_result) 1000 1000 1000 1000,
      SetChatInput ''hi'', ChatSubmit 2000 2000,
      ChatSubmitSettled (Inr \<lparr>reply = ''ok'', updatedCode = None\<rparr>) 3000 3000]"

definition example_item :: GenerationHistoryItem where
  "example_item =
     \<lparr>item_id = ''1000'', item_prompt = ''ea'', item_type = EXPERT_ADVISOR,
      item_code = ''void OnTick() {}'', item_timestamp = 1000\<rparr>"

section \<open>Host-language operations\<close>


lemma slice_first: "0 \<le> n \<Longrightarrow> slice xs 0 (Some n) = take (nat n) xs"
  by (auto simp: slice_def Let_def max_def min_def)

section \<open>The conversation context of a chat request\<close>



section \<open>The documentation section of the prompts\<close>

text \<open>
  Claim C8. For every documentation context, the prompt of a generation request
  holds at most its first 500000 characters, between the fixed header and footer
  of the documentation section, and the prompt of a chat request at most its
  first 100000. When the context is empty or absent the prompt has no
  documentation section at all: it is the prompt of the absent context.
\<close>

theorem documentation_context_truncated:
  "(\<exists>base rest.
      generateMql5_fullPrompt p t None = base @ rest \<and>
      generateMql5_fullPrompt p t (Some []) = base @ rest \<and>
      (\<forall>d. d \<noteq> [] \<longrightarrow>
         generateMql5_fullPrompt p t (Some d) =
           base @ documentation_header @ take 500000 d @ documentation_footer @ rest))
   \<and> chatWithCode_fullPrompt c h m (Some []) = chatWithCode_fullPrompt c h m None
   \<and> (\<forall>d. d \<noteq> [] \<longrightarrow>
         chatWithCode_fullPrompt c h m (Some d) =
           chatWithCode_fullPrompt c h m None @
           ''\<newline>    REFERENCE DOCUMENTATION:\<newline>    '' @ take 100000 d @ ''\<newline>    '')"
proof (intro conjI)
  let ?base = "''\<newline>    Create an MQL5 '' @ CodeType_value t @
      ''.\<newline>    \<newline>    User Requirement:\<newline>    '' @ p @ ''\<newline>  ''"
  let ?rest = "''\<newline>    Ensure the code is complete and compilable in MetaEditor.\<newline>  ''"
  have absent: "generateMql5_fullPrompt p t None = ?base @ ?rest"
    by (simp add: generateMql5_fullPrompt_def)
  have empty: "generateMql5_fullPrompt p t (Some []) = ?base @ ?rest"
    by (simp add: generateMql5_fullPrompt_def)
  have present: "\<forall>d. d \<noteq> [] \<longrightarrow>
      generateMql5_fullPrompt p t (Some d) =
        ?base @ documentation_header @ take 500000 d @ documentation_footer @ ?rest"
    by (simp add: generateMql5_fullPrompt_def generate_documentation_section_def slice_first)
  from absent empty present
  show "\<exists>base rest.
      generateMql5_fullPrompt p t None = base @ rest \<and>
      generateMql5_fullPrompt p t (Some []) = base @ rest \<and>
      (\<forall>d. d \<noteq> [] \<longrightarrow>
         generateMql5_fullPrompt p t (Some d) =
           base @ documentation_header @ take 500000 d @ documentation_footer @ rest)"
    by blast
next
  show "chatWithCode_fullPrompt c h m (Some []) = chatWithCode_fullPrompt c h m None"
    by (simp add: chatWithCode_fullPrompt_def)
next
  show "\<forall>d. d \<noteq> [] \<longrightarrow>
      chatWithCode_fullPrompt c h m (Some d) =
        chatWithCode_fullPrompt c h m None @
        ''\<newline>    REFERENCE DOCUMENTATION:\<newline>    '' @ take 100000 d @ ''\<newline>    ''"
    by (simp add: chatWithCode_fullPrompt_def chat_documentation_section_def slice_first)
qed

theorem documentation_context_truncated_witness:
  "replicate 500001 (CHR ''a'') \<noteq> []
   \<and> (\<exists>base rest.
        generateMql5_fullPrompt ''scalper'' EXPERT_ADVISOR None = base @ rest \<and>
        generateMql5_fullPrompt ''scalper'' EXPERT_ADVISOR (Some (replicate 500001 (CHR ''a''))) =
          base @ documentation_header @ replicate 500000 (CHR ''a'') @
          documentation_footer @ rest)
   \<and> chatWithCode_fullPrompt ''code'' [] ''fix it'' (Some (replicate 500001 (CHR ''a''))) =
       chatWithCode_fullPrompt ''code'' [] ''fix it'' None @
       ''\<newline>    REFERENCE DOCUMENTATION:\<newline>    '' @ replicate 100000 (CHR ''a'') @ ''\<newline>    ''"
proof -
  have nonempty: "replicate 500001 (CHR ''a'') \<noteq> []"
    by simp
  have gen: "take 500000 (replicate 500001 (CHR ''a'')) = replicate 500000 (CHR ''a'')"
    by simp
  have chat: "take 100000 (replicate 500001 (CHR ''a'')) = replicate 100000 (CHR ''a'')"
    by simp
  from documentation_context_truncated [of "''scalper''" EXPERT_ADVISOR "''code''" "[]" "''fix it''"]
  show ?thesis
    using nonempty gen chat by metis
qed

section \<open>Cleaning the reply of the model\<close>

lemma startsWith_split: "startsWith s p \<Longrightarrow> s = p @ drop (length p) s"
  unfolding startsWith_def by (metis append_take_drop_id)

lemma startsWith_append: "startsWith s (p @ q) \<Longrightarrow> startsWith s p"
proof -
  assume "startsWith s (p @ q)"
  then have "take (length p) (take (length (p @ q)) s) = take (length p) (p @ q)"
    unfolding startsWith_def by simp
  then show ?thesis
    unfolding startsWith_def by (simp add: min_def)
qed

lemma endsWith_split: "endsWith s p \<Longrightarrow> s = take (length s - length p) s @ p"
  unfolding endsWith_def by (metis append_take_drop_id)

lemma dropWhile_head: "dropWhile P xs = [] \<or> \<not> P (hd (dropWhile P xs))"
  by (metis hd_dropWhile)

lemma trimEnd_split:
  "\<exists>ws. s = trimEnd s @ ws \<and> (\<forall>c\<in>set ws. isWhiteSpace c)"
proof -
  have "rev s = takeWhile isWhiteSpace (rev s) @ dropWhile isWhiteSpace (rev s)"
    by simp
  then have "s = rev (dropWhile isWhiteSpace (rev s)) @ rev (takeWhile isWhiteSpace (rev s))"
    by (metis rev_append rev_rev_ident)
  moreover have "\<forall>c\<in>set (rev (takeWhile isWhiteSpace (rev s))). isWhiteSpace c"
    by (auto dest: set_takeWhileD)
  ultimately show ?thesis
    unfolding trimEnd_def by blast
qed

lemma trimEnd_last: "trimEnd s = [] \<or> \<not> isWhiteSpace (last (trimEnd s))"
  unfolding trimEnd_def using dropWhile_head [of isWhiteSpace "rev s"]
  by (auto simp: last_rev)

lemma replace_leading_fence_split:
  assumes "startsWith s fence"
  shows "\<exists>ws. s = fence @ ws @ replace_leading_fence fence s \<and> (\<forall>c\<in>set ws. isWhiteSpace c)"
proof -
  obtain r where s: "s = fence @ r" and r: "r = drop (length fence) s"
    using startsWith_split [OF assms] by blast
  have "r = takeWhile isWhiteSpace r @ dropWhile isWhiteSpace r"
    by simp
  with s have "s = fence @ takeWhile isWhiteSpace r @ dropWhile isWhiteSpace r"
    by simp
  moreover have "\<forall>c\<in>set (takeWhile isWhiteSpace r). isWhiteSpace c"
    by (auto dest: set_takeWhileD)
  moreover have "replace_leading_fence fence s = dropWhile isWhiteSpace r"
    using assms r by (simp add: replace_leading_fence_def)
  ultimately show ?thesis
    by metis
qed

lemma replace_leading_fence_head:
  assumes "startsWith s fence"
  shows "replace_leading_fence fence s = [] \<or>
         \<not> isWhiteSpace (hd (replace_leading_fence fence s))"
  using assms dropWhile_head [of isWhiteSpace "drop (length fence) s"]
  by (simp add: replace_leading_fence_def)

lemma replace_trailing_fence_split:
  assumes "endsWith b ''```''"
  shows "\<exists>ws. b = replace_trailing_fence b @ ws @ ''```'' \<and> (\<forall>c\<in>set ws. isWhiteSpace c)"
proof -
  obtain r where b: "b = r @ ''```''" and r: "r = take (length b - 3) b"
    using endsWith_split [OF assms] by (simp add: numeral_3_eq_3)
  obtain ws where "r = trimEnd r @ ws" and ws: "\<forall>c\<in>set ws. isWhiteSpace c"
    using trimEnd_split by blast
  with b have "b = trimEnd r @ ws @ ''```''"
    by (metis append.assoc)
  moreover have "replace_trailing_fence b = trimEnd r"
    using assms r by (simp add: replace_trailing_fence_def)
  ultimately show ?thesis
    using ws by metis
qed

text \<open>
  Claim C4, as amended. For every reply, \<^verbatim>\<open>cleanJsonOutput\<close> returns the trimmed
  string unchanged when it does not start with three backticks. When it does, the
  trimmed string is the leading fence (\<^verbatim>\<open>```json\<close> if it starts so, else
  \<^verbatim>\<open>```\<close>), a run of white space and a body that does not start with white space;
  if the body ends with three backticks the result is the body without that fence
  and without the white space before it, otherwise the result is the body.
\<close>

theorem cleanJsonOutput_fences:
  "(\<not> startsWith (trim txt) ''```'' \<longrightarrow> cleanJsonOutput txt = trim txt)
   \<and> (startsWith (trim txt) ''```'' \<longrightarrow>
        (\<exists>fence ws1 body.
           fence = (if startsWith (trim txt) ''```json'' then ''```json'' else ''```'') \<and>
           trim txt = fence @ ws1 @ body \<and>
           (\<forall>c\<in>set ws1. isWhiteSpace c) \<and>
           (body = [] \<or> \<not> isWhiteSpace (hd body)) \<and>
           (if endsWith body ''```''
            then \<exists>ws2. body = cleanJsonOutput txt @ ws2 @ ''```'' \<and>
                   (\<forall>c\<in>set ws2. isWhiteSpace c) \<and>
                   (cleanJsonOutput txt = [] \<or> \<not> isWhiteSpace (last (cleanJsonOutput txt)))
            else cleanJsonOutput txt = body)))"
proof (intro conjI impI)
  assume plain: "\<not> startsWith (trim txt) ''```''"
  have "startsWith (trim txt) ''```json'' \<Longrightarrow> startsWith (trim txt) ''```''"
    using startsWith_append [of "trim txt" "''```''" "''json''"] by simp
  with plain show "cleanJsonOutput txt = trim txt"
    unfolding cleanJsonOutput_def Let_def by auto
next
  assume fenced: "startsWith (trim txt) ''```''"
  define fence where "fence = (if startsWith (trim txt) ''```json'' then ''```json'' else ''```'')"
  define body where "body = replace_leading_fence fence (trim txt)"
  have sw: "startsWith (trim txt) fence"
    using fenced by (simp add: fence_def)
  have out: "cleanJsonOutput txt = replace_trailing_fence body"
    using fenced unfolding cleanJsonOutput_def Let_def body_def fence_def by simp
  obtain ws1 where split1: "trim txt = fence @ ws1 @ body" and ws1: "\<forall>c\<in>set ws1. isWhiteSpace c"
    using replace_leading_fence_split [OF sw] body_def by blast
  have head: "body = [] \<or> \<not> isWhiteSpace (hd body)"
    using replace_leading_fence_head [OF sw] body_def by simp
  have tail: "if endsWith body ''```''
      then \<exists>ws2. body = cleanJsonOutput txt @ ws2 @ ''```'' \<and>
             (\<forall>c\<in>set ws2. isWhiteSpace c) \<and>
             (cleanJsonOutput txt = [] \<or> \<not> isWhiteSpace (last (cleanJsonOutput txt)))
      else cleanJsonOutput txt = body"
  proof (cases "endsWith body ''```''")
    case True
    have "cleanJsonOutput txt = [] \<or> \<not> isWhiteSpace (last (cleanJsonOutput txt))"
      using True trimEnd_last unfolding out replace_trailing_fence_def by simp
    then show ?thesis
      using True replace_trailing_fence_split [OF True] out by auto
  next
    case False
    then show ?thesis
      by (simp add: out replace_trailing_fence_def)
  qed
  from split1 ws1 head tail fence_def
  show "\<exists>fence ws1 body.
           fence = (if startsWith (trim txt) ''```json'' then ''```json'' else ''```'') \<and>
           trim txt = fence @ ws1 @ body \<and>
           (\<forall>c\<in>set ws1. isWhiteSpace c) \<and>
           (body = [] \<or> \<not> isWhiteSpace (hd body)) \<and>
           (if endsWith body ''```''
            then \<exists>ws2. body = cleanJsonOutput txt @ ws2 @ ''```'' \<and>
                   (\<forall>c\<in>set ws2. isWhiteSpace c) \<and>
                   (cleanJsonOutput txt = [] \<or> \<not> isWhiteSpace (last (cleanJsonOutput txt)))
            else cleanJsonOutput txt = body)"
    by blast
qed

theorem cleanJsonOutput_fences_witness:
  "\<not> startsWith (trim '' {} '') ''```''
   \<and> cleanJsonOutput '' {} '' = ''{}''
   \<and> startsWith (trim ''```json\<newline>{}\<newline>``` '') ''```''
   \<and> cleanJsonOutput ''```json\<newline>{}\<newline>``` '' = ''{}''
   \<and> (\<exists>ws1 body ws2.
        trim ''```json\<newline>{}\<newline>``` '' = ''```json'' @ ws1 @ body \<and>
        body = cleanJsonOutput ''```json\<newline>{}\<newline>``` '' @ ws2 @ ''```'')"
proof -
  let ?fenced = "''```json\<newline>{}\<newline>``` ''"
  have plain: "\<not> startsWith (trim '' {} '') ''```''"
    by code_simp
  have trimmed: "trim '' {} '' = ''{}''"
    by code_simp
  have fenced: "startsWith (trim ?fenced) ''```''"
    by code_simp
  have json: "startsWith (trim ?fenced) ''```json''"
    by code_simp
  have out: "cleanJsonOutput ?fenced = ''{}''"
    by code_simp
  have "cleanJsonOutput '' {} '' = ''{}''"
    using cleanJsonOutput_fences [of "'' {} ''"] plain trimmed by simp
  moreover obtain ws1 body where split: "trim ?fenced = ''```json'' @ ws1 @ body"
      and tail: "if endsWith body ''```''
        then \<exists>ws2. body = cleanJsonOutput ?fenced @ ws2 @ ''```'' \<and>
               (\<forall>c\<in>set ws2. isWhiteSpace c) \<and>
               (cleanJsonOutput ?fenced = [] \<or> \<not> isWhiteSpace (last (cleanJsonOutput ?fenced)))
        else cleanJsonOutput ?fenced = body"
    using cleanJsonOutput_fences [of ?fenced] fenced json by auto
  have "trim ?fenced = ''```json\<newline>{}\<newline>```''"
    by code_simp
  with split have "endsWith body ''```''"
    using out tail by (auto simp: endsWith_def split: if_splits)
  with tail obtain ws2 where "body = cleanJsonOutput ?fenced @ ws2 @ ''```''"
    by auto
  ultimately show ?thesis
    using plain fenced out split by blast
qed

text \<open>
  The claim as stated removes the fences and nothing else. The code also removes
  the white space between the fences and the body: the reply below is returned as
  \<^verbatim>\<open>{}\<close>, without the two line breaks the claim's reading leaves.
\<close>

theorem cleanJsonOutput_counterexample:
  "cleanJsonOutput ''```json\<newline>{}\<newline>```'' \<noteq>
   cleanJsonOutput_as_claimed ''```json\<newline>{}\<newline>```''"
  by code_simp

section \<open>The outcome of an adapter call\<close>

lemma parse_response_Inr:
  "parse_response parse outcome = Inr r \<Longrightarrow>
   \<exists>response t. outcome = Inr response \<and> response_text response = Some t \<and> t \<noteq> [] \<and>
     parse (cleanJsonOutput t) = Inr r"
  by (auto simp: parse_response_def split: sum.splits if_splits option.splits)

lemma parse_response_no_text:
  "\<not> truthy (response_text response) \<Longrightarrow>
   parse_response parse (Inr response) = Inl (Error ''No response generated'')"
  by (simp add: parse_response_def)

lemma parse_response_rejected: "parse_response parse (Inl e) = Inl e"
  by (simp add: parse_response_def)

lemma parse_response_text:
  "response_text response = Some t \<Longrightarrow> t \<noteq> [] \<Longrightarrow>
   parse_response parse (Inr response) = parse (cleanJsonOutput t)"
  by (simp add: parse_response_def)

text \<open>
  Claim C6. Each adapter function either returns a value or throws. When it
  returns, the value is what parsing the cleaned, non-empty text of the response
  gave. When the response carries no text (undefined or empty) it throws
  ``No response generated''; when the call is rejected it throws the same error;
  when the response has text the outcome is that of parsing the cleaned text.
\<close>

theorem adapters_return_parsed_or_throw:
  "(generateMql5 ai parse_g p t d = Inr res_g \<longrightarrow>
      (\<exists>response txt. ai (generateMql5_request p t d) = Inr response \<and>
         response_text response = Some txt \<and> txt \<noteq> [] \<and>
         parse_g (cleanJsonOutput txt) = Inr res_g))
   \<and> (ai (generateMql5_request p t d) = Inr resp_g \<and>
        \<not> truthy (response_text resp_g) \<longrightarrow>
        generateMql5 ai parse_g p t d = Inl (Error ''No response generated''))
   \<and> (ai (generateMql5_request p t d) = Inr resp_g \<and>
        response_text resp_g = Some txt_g \<and> txt_g \<noteq> [] \<longrightarrow>
        generateMql5 ai parse_g p t d = parse_g (cleanJsonOutput txt_g))
   \<and> (ai (generateMql5_request p t d) = Inl err_g \<longrightarrow> generateMql5 ai parse_g p t d = Inl err_g)
   \<and> (chatWithCode ai parse_c c h m d = Inr res_c \<longrightarrow>
      (\<exists>response txt. ai (chatWithCode_request c h m d) = Inr response \<and>
         response_text response = Some txt \<and> txt \<noteq> [] \<and>
         parse_c (cleanJsonOutput txt) = Inr res_c))
   \<and> (ai (chatWithCode_request c h m d) = Inr resp_c \<and>
        \<not> truthy (response_text resp_c) \<longrightarrow>
        chatWithCode ai parse_c c h m d = Inl (Error ''No response generated''))
   \<and> (ai (chatWithCode_request c h m d) = Inr resp_c \<and>
        response_text resp_c = Some txt_c \<and> txt_c \<noteq> [] \<longrightarrow>
        chatWithCode ai parse_c c h m d = parse_c (cleanJsonOutput txt_c))
   \<and> (ai (chatWithCode_request c h m d) = Inl err_c \<longrightarrow> chatWithCode ai parse_c c h m d = Inl err_c)"
  unfolding generateMql5_def chatWithCode_def
  by (auto dest: parse_response_Inr
      simp: parse_response_no_text parse_response_rejected parse_response_text)

theorem adapters_return_parsed_or_throw_witness:
  "generateMql5 example_reply_ai example_parse_generate ''ea'' EXPERT_ADVISOR None =
     Inr example_result
   \<and> generateMql5 example_silent_ai example_parse_generate ''ea'' EXPERT_ADVISOR None =
       Inl (Error ''No response generated'')
   \<and> generateMql5 example_failing_ai example_parse_generate ''ea'' EXPERT_ADVISOR None =
       Inl (Error ''503 Service Unavailable'')
   \<and> chatWithCode example_reply_ai example_parse_chat ''code'' [] ''hi'' None =
       Inr \<lparr>reply = ''ok'', updatedCode = None\<rparr>
   \<and> chatWithCode example_silent_ai example_parse_chat ''code'' [] ''hi'' None =
       Inl (Error ''No response generated'')
   \<and> chatWithCode example_failing_ai example_parse_chat ''code'' [] ''hi'' None =
       Inl (Error ''503 Service Unavailable'')"
proof -
  let ?fenced = "''```json\<newline>{}\<newline>```''"
  have clean: "cleanJsonOutput ?fenced = ''{}''"
    by code_simp
  have reply: "example_reply_ai request = Inr \<lparr>response_text = Some ?fenced\<rparr> \<and>
      response_text \<lparr>response_text = Some ?fenced\<rparr> = Some ?fenced \<and> ?fenced \<noteq> []"
    for request
    by (simp add: example_reply_ai_def)
  have silent: "example_silent_ai request = Inr \<lparr>response_text = None\<rparr> \<and>
      \<not> truthy (response_text \<lparr>response_text = None\<rparr>)"
    for request
    by (simp add: example_silent_ai_def)
  have failing: "example_failing_ai request = Inl (Error ''503 Service Unavailable'')"
    for request
    by (simp add: example_failing_ai_def)
  note inst = adapters_return_parsed_or_throw
    [where parse_g = example_parse_generate and parse_c = example_parse_chat
       and p = "''ea''" and t = EXPERT_ADVISOR and d = None
       and c = "''code''" and h = "[]" and m = "''hi''"]
  have g_reply: "generateMql5 example_reply_ai example_parse_generate ''ea'' EXPERT_ADVISOR None =
      example_parse_generate (cleanJsonOutput ?fenced)"
    using inst [where ai = example_reply_ai] reply by blast
  have g_silent: "generateMql5 example_silent_ai example_parse_generate ''ea'' EXPERT_ADVISOR None =
      Inl (Error ''No response generated'')"
    using inst [where ai = example_silent_ai] silent by blast
  have g_failing: "generateMql5 example_failing_ai example_parse_generate ''ea'' EXPERT_ADVISOR None =
      Inl (Error ''503 Service Unavailable'')"
    using inst [where ai = example_failing_ai] failing by blast
  have c_reply: "chatWithCode example_reply_ai example_parse_chat ''code'' [] ''hi'' None =
      example_parse_chat (cleanJsonOutput ?fenced)"
    using inst [where ai = example_reply_ai] reply by blast
  have c_silent: "chatWithCode example_silent_ai example_parse_chat ''code'' [] ''hi'' None =
      Inl (Error ''No response generated'')"
    using inst [where ai = example_silent_ai] silent by blast
  have c_failing: "chatWithCode example_failing_ai example_parse_chat ''code'' [] ''hi'' None =
      Inl (Error ''503 Service Unavailable'')"
    using inst [where ai = example_failing_ai] failing by blast
  show ?thesis
    unfolding g_reply g_silent g_failing c_reply c_silent c_failing clean
    by (simp add: example_parse_generate_def example_parse_chat_def)
qed

section \<open>Extracting the text of a PDF\<close>

lemma extract_pages_success:
  "\<forall>j. i \<le> j \<and> j \<le> n \<longrightarrow> read_page doc j = Inr (texts j) \<Longrightarrow>
   extract_pages doc n i acc =
     Inr (acc @ concat (map (\<lambda>j. page_header j @ texts j) [i..<Suc n]))"
proof (induction doc n i acc rule: extract_pages.induct)
  case (1 doc totalPages i fullText)
  show ?case
  proof (cases "i \<le> totalPages")
    case True
    then have page: "read_page doc i = Inr (texts i)"
      using "1.prems" by simp
    have "extract_pages doc totalPages (i + 1) (fullText @ page_header i @ texts i) =
        Inr ((fullText @ page_header i @ texts i) @
          concat (map (\<lambda>j. page_header j @ texts j) [i + 1..<Suc totalPages]))"
      using "1.IH" [OF True page] "1.prems" by simp
    moreover have "[i..<Suc totalPages] = i # [i + 1..<Suc totalPages]"
      using True by (simp add: upt_conv_Cons)
    ultimately show ?thesis
      using True page by (simp add: extract_pages.simps [of doc totalPages i])
  next
    case False
    then show ?thesis
      by (simp add: extract_pages.simps [of doc totalPages i])
  qed
qed

lemma extract_pages_Inr:
  "extract_pages doc n i acc = Inr full \<Longrightarrow>
   \<forall>j. i \<le> j \<and> j \<le> n \<longrightarrow> (\<exists>t. read_page doc j = Inr t)"
proof (induction doc n i acc rule: extract_pages.induct)
  case (1 doc totalPages i fullText)
  show ?case
  proof (cases "i \<le> totalPages")
    case True
    from "1.prems" True obtain t where page: "read_page doc i = Inr t"
        and rest: "extract_pages doc totalPages (i + 1) (fullText @ page_header i @ t) = Inr full"
      by (auto simp: extract_pages.simps [of doc totalPages i] split: sum.splits)
    have later: "\<forall>j. i + 1 \<le> j \<and> j \<le> totalPages \<longrightarrow> (\<exists>t. read_page doc j = Inr t)"
      using "1.IH" [OF True page rest] .
    show ?thesis
    proof (intro allI impI)
      fix j assume "i \<le> j \<and> j \<le> totalPages"
      then have "j = i \<or> (i + 1 \<le> j \<and> j \<le> totalPages)"
        by auto
      then show "\<exists>t. read_page doc j = Inr t"
        using page later by blast
    qed
  next
    case False
    then show ?thesis
      by (meson le_trans)
  qed
qed

lemma read_page_Inr_iff:
  "read_page doc j = Inr t \<longleftrightarrow>
   (\<exists>page tc. getPage doc j = Inr page \<and> getTextContent page = Inr tc \<and>
      t = join '' '' (map str (items tc)))"
  by (auto simp: read_page_def split: sum.splits)

text \<open>
  Claim C5. For every file, \<^verbatim>\<open>extractTextFromPdf\<close> either returns the text of all
  pages, from page 1 to the reported page count in order, each page's text (the
  \<open>str\<close> of its items joined by spaces) after its page separator, or throws one
  fixed error. It returns exactly when the file's bytes, the document, and the page
  and the text content of every page could be read. When the bytes, the document,
  some page or the text content of some page cannot be read it throws, so a result
  never stops at, or skips, a page that failed.
\<close>

theorem extractTextFromPdf_all_pages_or_error:
  "(extractTextFromPdf getDocument pdf = Inr fullText \<longrightarrow>
      (\<exists>data doc texts.
         arrayBuffer pdf = Inr data \<and> getDocument data = Inr doc \<and>
         (\<forall>j. 1 \<le> j \<and> j \<le> numPages doc \<longrightarrow>
            (\<exists>page tc. getPage doc j = Inr page \<and> getTextContent page = Inr tc \<and>
               texts j = join '' '' (map str (items tc)))) \<and>
         fullText = concat (map (\<lambda>j. page_header j @ texts j) [1..<Suc (numPages doc)])))
   \<and> (extractTextFromPdf getDocument pdf = Inl e \<longrightarrow>
        e = Error ''Failed to extract text from PDF. The file might be corrupted or encrypted.'')
   \<and> (arrayBuffer pdf = Inr data \<and> getDocument data = Inr doc \<and>
        (\<forall>j. 1 \<le> j \<and> j \<le> numPages doc \<longrightarrow>
           (\<exists>page tc. getPage doc j = Inr page \<and> getTextContent page = Inr tc \<and>
              texts j = join '' '' (map str (items tc)))) \<longrightarrow>
        extractTextFromPdf getDocument pdf =
          Inr (concat (map (\<lambda>j. page_header j @ texts j) [1..<Suc (numPages doc)])))
   \<and> (arrayBuffer pdf = Inl err \<or>
        (arrayBuffer pdf = Inr data \<and> getDocument data = Inl err) \<or>
        (arrayBuffer pdf = Inr data \<and> getDocument data = Inr doc \<and>
         1 \<le> k \<and> k \<le> numPages doc \<and>
         (getPage doc k = Inl err \<or>
          (getPage doc k = Inr failing \<and> getTextContent failing = Inl err))) \<longrightarrow>
        extractTextFromPdf getDocument pdf =
          Inl (Error ''Failed to extract text from PDF. The file might be corrupted or encrypted.''))"
proof -
  let ?failed =
    "Error ''Failed to extract text from PDF. The file might be corrupted or encrypted.''"
  have returned: "\<exists>data doc texts.
         arrayBuffer pdf = Inr data \<and> getDocument data = Inr doc \<and>
         (\<forall>j. 1 \<le> j \<and> j \<le> numPages doc \<longrightarrow>
            (\<exists>page tc. getPage doc j = Inr page \<and> getTextContent page = Inr tc \<and>
               texts j = join '' '' (map str (items tc)))) \<and>
         full = concat (map (\<lambda>j. page_header j @ texts j) [1..<Suc (numPages doc)])"
    if ok: "extractTextFromPdf getDocument pdf = Inr full" for full
  proof -
    from ok obtain data doc where data: "arrayBuffer pdf = Inr data"
        and doc: "getDocument data = Inr doc"
        and loop: "extract_pages doc (numPages doc) 1 [] = Inr full"
      by (auto simp: extractTextFromPdf_def split: sum.splits)
    define page_text where
      "page_text = (\<lambda>j. case read_page doc j of Inr t \<Rightarrow> t | Inl e \<Rightarrow> [])"
    have pages: "\<forall>j. 1 \<le> j \<and> j \<le> numPages doc \<longrightarrow> read_page doc j = Inr (page_text j)"
      using extract_pages_Inr [OF loop] by (auto simp: page_text_def)
    have "full = concat (map (\<lambda>j. page_header j @ page_text j) [1..<Suc (numPages doc)])"
      using extract_pages_success [OF pages, of "[]"] loop by simp
    moreover have "\<forall>j. 1 \<le> j \<and> j \<le> numPages doc \<longrightarrow>
        (\<exists>page tc. getPage doc j = Inr page \<and> getTextContent page = Inr tc \<and>
           page_text j = join '' '' (map str (items tc)))"
      using pages by (simp add: read_page_Inr_iff)
    ultimately show ?thesis
      using data doc by blast
  qed
  have thrown: "e = ?failed" if "extractTextFromPdf getDocument pdf = Inl e" for e
    using that by (auto simp: extractTextFromPdf_def split: sum.splits)
  have complete: "extractTextFromPdf getDocument pdf =
        Inr (concat (map (\<lambda>j. page_header j @ texts j) [1..<Suc (numPages doc)]))"
    if "arrayBuffer pdf = Inr data \<and> getDocument data = Inr doc \<and>
        (\<forall>j. 1 \<le> j \<and> j \<le> numPages doc \<longrightarrow>
           (\<exists>page tc. getPage doc j = Inr page \<and> getTextContent page = Inr tc \<and>
              texts j = join '' '' (map str (items tc))))"
  proof -
    from that have "\<forall>j. 1 \<le> j \<and> j \<le> numPages doc \<longrightarrow> read_page doc j = Inr (texts j)"
      by (simp add: read_page_Inr_iff)
    then show ?thesis
      using that extract_pages_success [of 1 "numPages doc" doc texts "[]"]
      by (simp add: extractTextFromPdf_def)
  qed
  have unreadable: "extractTextFromPdf getDocument pdf = Inl ?failed"
    if bad: "arrayBuffer pdf = Inl err \<or>
        (arrayBuffer pdf = Inr data \<and> getDocument data = Inl err) \<or>
        (arrayBuffer pdf = Inr data \<and> getDocument data = Inr doc \<and>
         1 \<le> k \<and> k \<le> numPages doc \<and>
         (getPage doc k = Inl err \<or>
          (getPage doc k = Inr failing \<and> getTextContent failing = Inl err)))"
  proof (cases "extractTextFromPdf getDocument pdf")
    case (Inl e)
    then show ?thesis
      using thrown by simp
  next
    case (Inr full)
    from returned [OF Inr] obtain data' doc' where data': "arrayBuffer pdf = Inr data'"
        and doc': "getDocument data' = Inr doc'"
        and pages: "\<forall>j. 1 \<le> j \<and> j \<le> numPages doc' \<longrightarrow>
          (\<exists>page tc. getPage doc' j = Inr page \<and> getTextContent page = Inr tc)"
      by blast
    from bad data' doc' have "1 \<le> k \<and> k \<le> numPages doc' \<and>
        (getPage doc' k = Inl err \<or>
         (getPage doc' k = Inr failing \<and> getTextContent failing = Inl err))"
      by auto
    with pages have False
      by (metis Inl_Inr_False sum.inject(2))
    then show ?thesis
      by simp
  qed
  from returned thrown complete unreadable show ?thesis
    by blast
qed

theorem extractTextFromPdf_all_pages_or_error_witness:
  "extractTextFromPdf example_getDocument (example_file [1]) =
     Inr ''\<newline>--- Page 1 ---\<newline>Order Send\<newline>--- Page 2 ---\<newline>Tick''
   \<and> extractTextFromPdf example_getDocument example_detached_file =
       Inl (Error ''Failed to extract text from PDF. The file might be corrupted or encrypted.'')
   \<and> extractTextFromPdf example_getDocument (example_file [0]) =
       Inl (Error ''Failed to extract text from PDF. The file might be corrupted or encrypted.'')
   \<and> extractTextFromPdf example_getDocument (example_file [2]) =
       Inl (Error ''Failed to extract text from PDF. The file might be corrupted or encrypted.'')
   \<and> extractTextFromPdf example_getDocument (example_file [3]) =
       Inl (Error ''Failed to extract text from PDF. The file might be corrupted or encrypted.'')"
proof -
  let ?texts = "\<lambda>j::nat. if j = 1 then ''Order Send'' else ''Tick''"
  have pages: "\<forall>j. 1 \<le> j \<and> j \<le> numPages example_doc \<longrightarrow>
      (\<exists>page tc. getPage example_doc j = Inr page \<and> getTextContent page = Inr tc \<and>
         ?texts j = join '' '' (map str (items tc)))"
  proof (intro allI impI)
    fix j :: nat
    assume "1 \<le> j \<and> j \<le> numPages example_doc"
    then have "j = 1 \<or> j = 2"
      by (auto simp: example_doc_def)
    then show "\<exists>page tc. getPage example_doc j = Inr page \<and> getTextContent page = Inr tc \<and>
        ?texts j = join '' '' (map str (items tc))"
      by (auto simp: example_doc_def example_page_def)
  qed
  have loaded: "arrayBuffer (example_file [1]) = Inr [1] \<and>
      example_getDocument [1] = Inr example_doc"
    by (simp add: example_file_def example_getDocument_def)
  have "extractTextFromPdf example_getDocument (example_file [1]) =
      Inr (concat (map (\<lambda>j. page_header j @ ?texts j) [1..<Suc (numPages example_doc)]))"
    using extractTextFromPdf_all_pages_or_error
      [where getDocument = example_getDocument and pdf = "example_file [1]"
         and data = "[1]" and doc = example_doc and texts = ?texts]
      loaded pages
    by blast
  moreover have "concat (map (\<lambda>j. page_header j @ ?texts j) [1..<Suc (numPages example_doc)]) =
      ''\<newline>--- Page 1 ---\<newline>Order Send\<newline>--- Page 2 ---\<newline>Tick''"
    by code_simp
  moreover have "extractTextFromPdf example_getDocument example_detached_file =
      Inl (Error ''Failed to extract text from PDF. The file might be corrupted or encrypted.'')"
  proof -
    have "arrayBuffer example_detached_file = Inl (Error ''The requested file could not be read'')"
      by (simp add: example_detached_file_def)
    then show ?thesis
      using extractTextFromPdf_all_pages_or_error
        [where getDocument = example_getDocument and pdf = example_detached_file
           and err = "Error ''The requested file could not be read''"]
      by blast
  qed
  moreover have "extractTextFromPdf example_getDocument (example_file [0]) =
      Inl (Error ''Failed to extract text from PDF. The file might be corrupted or encrypted.'')"
  proof -
    have "arrayBuffer (example_file [0]) = Inr [0] \<and>
        example_getDocument [0] = Inl (Error ''Invalid PDF structure'')"
      by (simp add: example_file_def example_getDocument_def)
    then show ?thesis
      using extractTextFromPdf_all_pages_or_error
        [where getDocument = example_getDocument and pdf = "example_file [0]"
           and data = "[0]" and err = "Error ''Invalid PDF structure''"]
      by blast
  qed
  moreover have "extractTextFromPdf example_getDocument (example_file [2]) =
      Inl (Error ''Failed to extract text from PDF. The file might be corrupted or encrypted.'')"
  proof -
    have "arrayBuffer (example_file [2]) = Inr [2] \<and>
        example_getDocument [2] = Inr example_broken_doc \<and>
        (1::nat) \<le> 2 \<and> 2 \<le> numPages example_broken_doc \<and>
        getPage example_broken_doc 2 = Inl (Error ''Invalid page request'')"
      by (simp add: example_file_def example_getDocument_def example_broken_doc_def)
    then show ?thesis
      using extractTextFromPdf_all_pages_or_error
        [where getDocument = example_getDocument and pdf = "example_file [2]"
           and data = "[2]" and doc = example_broken_doc and k = 2
           and err = "Error ''Invalid page request''"]
      by blast
  qed
  moreover have "extractTextFromPdf example_getDocument (example_file [3]) =
      Inl (Error ''Failed to extract text from PDF. The file might be corrupted or encrypted.'')"
  proof -
    have "arrayBuffer (example_file [3]) = Inr [3] \<and>
        example_getDocument [3] = Inr example_unreadable_doc \<and>
        (1::nat) \<le> 2 \<and> 2 \<le> numPages example_unreadable_doc \<and>
        getPage example_unreadable_doc 2 =
          Inr \<lparr>getTextContent = Inl (Error ''Unreadable text layer'')\<rparr> \<and>
        getTextContent \<lparr>getTextContent = Inl (Error ''Unreadable text layer'')\<rparr> =
          Inl (Error ''Unreadable text layer'')"
      by (simp add: example_file_def example_getDocument_def example_unreadable_doc_def)
    then show ?thesis
      using extractTextFromPdf_all_pages_or_error
        [where getDocument = example_getDocument and pdf = "example_file [3]"
           and data = "[3]" and doc = example_unreadable_doc and k = 2
           and failing = "\<lparr>getTextContent = Inl (Error ''Unreadable text layer'')\<rparr>"
           and err = "Error ''Unreadable text layer''"]
      by blast
  qed
  ultimately show ?thesis
    by simp
qed

section \<open>The guards of the handlers\<close>

lemma trim_empty_iff: "trim s = [] \<longleftrightarrow> (\<forall>c\<in>set s. isWhiteSpace c)"
proof
  assume "trim s = []"
  then have all: "\<forall>c\<in>set (dropWhile isWhiteSpace s). isWhiteSpace c"
    by (simp add: trim_def trimEnd_def trimStart_def)
  have "dropWhile isWhiteSpace s = []"
  proof (rule ccontr)
    assume ne: "dropWhile isWhiteSpace s \<noteq> []"
    then have "\<not> isWhiteSpace (hd (dropWhile isWhiteSpace s))"
      by (rule hd_dropWhile)
    moreover have "hd (dropWhile isWhiteSpace s) \<in> set (dropWhile isWhiteSpace s)"
      using ne by (rule hd_in_set)
    ultimately show False
      using all by blast
  qed
  then show "\<forall>c\<in>set s. isWhiteSpace c"
    by simp
next
  assume "\<forall>c\<in>set s. isWhiteSpace c"
  then show "trim s = []"
    by (auto simp: trim_def trimEnd_def trimStart_def dest: set_dropWhileD)
qed

text \<open>
  Claim C10. When the prompt is empty or white space only, \<^verbatim>\<open>handleGenerate\<close>
  returns with the state unchanged and no call pending. \<^verbatim>\<open>handleChatSubmit\<close> does
  the same when the chat input is empty or white space only, or when a chat request
  is in flight.
\<close>

theorem blank_input_dispatches_nothing:
  "((\<forall>c\<in>set (prompt st). isWhiteSpace c) \<longrightarrow> handleGenerate st = (st, None))
   \<and> ((\<forall>c\<in>set (chatInput st). isWhiteSpace c) \<or> isChatLoading st \<longrightarrow>
        handleChatSubmit now1 now2 st = (st, None))"
  by (simp add: handleGenerate_def handleChatSubmit_def trim_empty_iff)

theorem blank_input_dispatches_nothing_witness:
  "handleGenerate (initial_state\<lparr>prompt := '' \<newline> ''\<rparr>) =
     (initial_state\<lparr>prompt := '' \<newline> ''\<rparr>, None)
   \<and> handleChatSubmit 2000 2000 (initial_state\<lparr>chatInput := ''  ''\<rparr>) =
       (initial_state\<lparr>chatInput := ''  ''\<rparr>, None)
   \<and> handleChatSubmit 2000 2000 (initial_state\<lparr>chatInput := ''hi'', isChatLoading := True\<rparr>) =
       (initial_state\<lparr>chatInput := ''hi'', isChatLoading := True\<rparr>, None)"
proof -
  have blank: "\<forall>c\<in>set (prompt (initial_state\<lparr>prompt := '' \<newline> ''\<rparr>)). isWhiteSpace c"
    by (simp add: isWhiteSpace_def)
  have blank_chat: "\<forall>c\<in>set (chatInput (initial_state\<lparr>chatInput := ''  ''\<rparr>)). isWhiteSpace c"
    by (simp add: isWhiteSpace_def)
  have loading: "isChatLoading (initial_state\<lparr>chatInput := ''hi'', isChatLoading := True\<rparr>)"
    by simp
  show ?thesis
    using blank_input_dispatches_nothing [of "initial_state\<lparr>prompt := '' \<newline> ''\<rparr>"] blank
      blank_input_dispatches_nothing [of "initial_state\<lparr>chatInput := ''  ''\<rparr>" 2000 2000] blank_chat
      blank_input_dispatches_nothing
        [of "initial_state\<lparr>chatInput := ''hi'', isChatLoading := True\<rparr>" 2000 2000] loading
    by blast
qed

section \<open>Uploading a PDF\<close>

text \<open>
  Claim C9. When the extraction fails, the continuation of \<^verbatim>\<open>processFile\<close> sets
  the uploaded file to null and the PDF content to the empty string, whatever they
  were; when it succeeds, the PDF content is the extracted text. So does the whole
  handler on a PDF file: after a failed extraction no file and no content are left,
  after a successful one the file and its text replace the previous ones.
\<close>

theorem failed_parse_leaves_no_file:
  "uploadedFile (processFile_settled (Inl err) st) = None
   \<and> pdfContent (processFile_settled (Inl err) st) = []
   \<and> pdfContent (processFile_settled (Inr extracted) st) = extracted
   \<and> (file_type pdf = ''application/pdf'' \<and> extractTextFromPdf getDocument pdf = Inl err \<longrightarrow>
        uploadedFile (processFile_run getDocument pdf st) = None \<and>
        pdfContent (processFile_run getDocument pdf st) = [])
   \<and> (file_type pdf = ''application/pdf'' \<and> extractTextFromPdf getDocument pdf = Inr extracted \<longrightarrow>
        uploadedFile (processFile_run getDocument pdf st) = Some pdf \<and>
        pdfContent (processFile_run getDocument pdf st) = extracted)"
  by (simp add: processFile_settled_def processFile_run_def processFile_def)

theorem failed_parse_leaves_no_file_witness:
  "uploadedFile (processFile_run example_getDocument (example_file [2])
       (initial_state\<lparr>uploadedFile := Some (example_file [1]), pdfContent := ''old text''\<rparr>)) = None
   \<and> pdfContent (processFile_run example_getDocument (example_file [2])
       (initial_state\<lparr>uploadedFile := Some (example_file [1]), pdfContent := ''old text''\<rparr>)) = []
   \<and> pdfContent (processFile_run example_getDocument (example_file [1])
       (initial_state\<lparr>uploadedFile := Some (example_file [2]), pdfContent := ''old text''\<rparr>)) =
       ''\<newline>--- Page 1 ---\<newline>Order Send\<newline>--- Page 2 ---\<newline>Tick''"
proof -
  have pdf: "file_type (example_file data) = ''application/pdf''" for data
    by (simp add: example_file_def)
  have bad: "extractTextFromPdf example_getDocument (example_file [2]) =
      Inl (Error ''Failed to extract text from PDF. The file might be corrupted or encrypted.'')"
    by code_simp
  have good: "extractTextFromPdf example_getDocument (example_file [1]) =
      Inr ''\<newline>--- Page 1 ---\<newline>Order Send\<newline>--- Page 2 ---\<newline>Tick''"
    by code_simp
  show ?thesis
    using failed_parse_leaves_no_file
        [where pdf = "example_file [2]" and getDocument = example_getDocument
           and err = "Error ''Failed to extract text from PDF. The file might be corrupted or encrypted.''"
           and st = "initial_state\<lparr>uploadedFile := Some (example_file [1]), pdfContent := ''old text''\<rparr>"]
      failed_parse_leaves_no_file
        [where pdf = "example_file [1]" and getDocument = example_getDocument
           and extracted = "''\<newline>--- Page 1 ---\<newline>Order Send\<newline>--- Page 2 ---\<newline>Tick''"
           and st = "initial_state\<lparr>uploadedFile := Some (example_file [2]), pdfContent := ''old text''\<rparr>"]
      pdf bad good
    by blast
qed

section \<open>The history and the chat list under every operation\<close>

lemma processFile_frame:
  "history (fst (processFile f st)) = history st"
  "chatMessages (fst (processFile f st)) = chatMessages st"
  by (simp_all add: processFile_def)

lemma handleFileChange_frame:
  "history (fst (handleFileChange fo st)) = history st"
  "chatMessages (fst (handleFileChange fo st)) = chatMessages st"
  by (simp_all add: handleFileChange_def processFile_frame split: option.splits)

lemma handleDrop_frame:
  "history (fst (handleDrop fo st)) = history st"
  "chatMessages (fst (handleDrop fo st)) = chatMessages st"
  by (simp_all add: handleDrop_def processFile_frame split: option.splits)

lemma processFile_settled_frame:
  "history (processFile_settled r st) = history st"
  "chatMessages (processFile_settled r st) = chatMessages st"
  by (simp_all add: processFile_settled_def split: sum.splits)

lemma drag_frame:
  "history (handleDragEnter st) = history st"
  "chatMessages (handleDragEnter st) = chatMessages st"
  "history (handleDragLeave b st) = history st"
  "chatMessages (handleDragLeave b st) = chatMessages st"
  "history (removeFile st) = history st"
  "chatMessages (removeFile st) = chatMessages st"
  by (simp_all add: handleDragEnter_def handleDragLeave_def removeFile_def)

lemma handleGenerate_frame:
  "history (fst (handleGenerate st)) = history st"
  "chatMessages (fst (handleGenerate st)) = chatMessages st"
  by (simp_all add: handleGenerate_def)

lemma handleGenerate_settled_history:
  "history (handleGenerate_settled p t (Inr r) n1 n2 n3 n4 st) =
     \<lparr>item_id = toString n1, item_prompt = p, item_type = t, item_code = res_code r,
      item_timestamp = n2\<rparr> # history st"
  "history (handleGenerate_settled p t (Inl e) n1 n2 n3 n4 st) = history st"
  by (simp_all add: handleGenerate_settled_def)

lemma handleGenerate_settled_chat:
  "chatMessages (handleGenerate_settled p t (Inr r) n1 n2 n3 n4 st) =
     [\<lparr>msg_id = toString n3, role = model,
       content = ''I've generated the '' @ CodeType_value t @
         '' code based on your request. '' @ res_explanation r,
       hasCodeUpdate = None, timestamp = n4\<rparr>]"
  "chatMessages (handleGenerate_settled p t (Inl e) n1 n2 n3 n4 st) = chatMessages st"
  by (simp_all add: handleGenerate_settled_def)

lemma handleChatSubmit_history:
  "history (fst (handleChatSubmit n1 n2 st)) = history st"
  "history (handleChatSubmit_settled rc n1 n2 st) = history st"
  by (simp_all add: handleChatSubmit_def handleChatSubmit_settled_def Let_def split: sum.splits)

lemma handleChatSubmit_chat:
  "chatMessages (fst (handleChatSubmit n1 n2 st)) =
     (if trim (chatInput st) = [] \<or> isChatLoading st then chatMessages st
      else chatMessages st @
        [\<lparr>msg_id = toString n1, role = user, content = chatInput st,
          hasCodeUpdate = None, timestamp = n2\<rparr>])"
  by (simp add: handleChatSubmit_def Let_def)

lemma handleChatSubmit_settled_chat:
  "chatMessages (handleChatSubmit_settled (Inr r) n1 n2 st) =
     chatMessages st @
       [\<lparr>msg_id = toString (n1 + 1), role = model, content = reply r,
         hasCodeUpdate = Some (truthy (updatedCode r)), timestamp = n2\<rparr>]"
  "chatMessages (handleChatSubmit_settled (Inl e) n1 n2 st) =
     chatMessages st @
       [\<lparr>msg_id = toString n1, role = model,
         content = ''I encountered an error while processing your request. Please try again.'',
         hasCodeUpdate = None, timestamp = n2\<rparr>]"
  by (simp_all add: handleChatSubmit_settled_def Let_def)

lemma restoreFromHistory_frame:
  "history (restoreFromHistory item n1 n2 st) = history st"
  "chatMessages (restoreFromHistory item n1 n2 st) =
     [\<lparr>msg_id = toString n1, role = model, content = ''Restored version: '' @ item_prompt item,
       hasCodeUpdate = None, timestamp = n2\<rparr>]"
  by (simp_all add: restoreFromHistory_def)

lemmas history_frame =
  processFile_frame(1) handleFileChange_frame(1) handleDrop_frame(1)
  processFile_settled_frame(1) drag_frame(1,3,5) handleGenerate_frame(1)
  handleGenerate_settled_history handleChatSubmit_history restoreFromHistory_frame(1)

lemmas chat_frame =
  processFile_frame(2) handleFileChange_frame(2) handleDrop_frame(2)
  processFile_settled_frame(2) drag_frame(2,4,6) handleGenerate_frame(2)
  handleGenerate_settled_chat handleChatSubmit_chat handleChatSubmit_settled_chat
  restoreFromHistory_frame(2)

lemma history_apply_event:
  "history (apply_event ev st) =
     (case ev of
        GenerateSettled p t (Inr r) n1 n2 n3 n4 \<Rightarrow>
          \<lparr>item_id = toString n1, item_prompt = p, item_type = t, item_code = res_code r,
           item_timestamp = n2\<rparr> # history st
      | _ \<Rightarrow> history st)"
  by (cases ev) (simp_all add: history_frame split: sum.splits)

lemma history_run: "\<exists>new. history (run evs st) = new @ history st"
proof (induction evs arbitrary: st)
  case Nil
  then show ?case by simp
next
  case (Cons ev evs)
  obtain new where "history (run evs (apply_event ev st)) = new @ history (apply_event ev st)"
    using Cons.IH by blast
  moreover have "\<exists>new. history (apply_event ev st) = new @ history st"
    by (simp add: history_apply_event split: event.splits sum.splits)
  ultimately show ?case
    by (metis append.assoc run.simps(2))
qed

text \<open>
  Claim C7. A generation record is created exactly by the continuation of a
  successful generation, which puts it at the head of the history list; every
  other operation, among them a failed generation and a restore from history,
  leaves the list as it is. Hence after any sequence of operations the records
  that were in the list are still there, unchanged, behind the new ones.
\<close>

theorem history_created_on_success_never_mutated:
  "history (apply_event ev st) =
     (case ev of
        GenerateSettled p t (Inr r) n1 n2 n3 n4 \<Rightarrow>
          \<lparr>item_id = toString n1, item_prompt = p, item_type = t, item_code = res_code r,
           item_timestamp = n2\<rparr> # history st
      | _ \<Rightarrow> history st)
   \<and> history (restoreFromHistory item now1 now2 st) = history st
   \<and> (\<exists>new. history (run evs st) = new @ history st)"
  using history_apply_event [of ev st] history_run [of evs st]
  by (simp add: restoreFromHistory_frame)

text \<open>
  Claim C2, as amended. Within a session, \<^verbatim>\<open>handleChatSubmit\<close> and its continuation
  only extend the chat list at the end, each by at most one turn (the user's turn,
  then the reply or the error notice), and leave the turns before it as they are.
  The continuation of a successful generation and \<^verbatim>\<open>restoreFromHistory\<close> replace
  the whole list by one new assistant turn. Every other operation, a failed
  generation included, leaves the list unchanged.
\<close>

theorem chat_list_extended_or_reset:
  "(case ev of
      ChatSubmit n1 n2 \<Rightarrow>
        chatMessages (apply_event ev st) =
          (if trim (chatInput st) = [] \<or> isChatLoading st then chatMessages st
           else chatMessages st @
             [\<lparr>msg_id = toString n1, role = user, content = chatInput st,
               hasCodeUpdate = None, timestamp = n2\<rparr>])
    | ChatSubmitSettled r n1 n2 \<Rightarrow>
        (\<exists>m. role m = model \<and> chatMessages (apply_event ev st) = chatMessages st @ [m])
    | GenerateSettled p t r n1 n2 n3 n4 \<Rightarrow>
        (case r of
           Inr res \<Rightarrow> (\<exists>m. role m = model \<and> chatMessages (apply_event ev st) = [m])
         | Inl e \<Rightarrow> chatMessages (apply_event ev st) = chatMessages st)
    | Restore item n1 n2 \<Rightarrow>
        (\<exists>m. role m = model \<and> chatMessages (apply_event ev st) = [m])
    | _ \<Rightarrow> chatMessages (apply_event ev st) = chatMessages st)"
proof (cases ev)
  case (ChatSubmitSettled r n1 n2)
  then show ?thesis
    by (cases r) (simp_all add: chat_frame)
next
  case (GenerateSettled p t r n1 n2 n3 n4)
  then show ?thesis
    by (cases r) (simp_all add: chat_frame)
qed (simp_all add: chat_frame)

lemma toString_examples:
  "toString 1000 = ''1000''" "toString 2000 = ''2000''" "toString 3001 = ''3001''"
  "toString 4000 = ''4000''" "toString 5000 = ''5000''"
  by (simp_all add: toString.simps digit_def)

lemma trim_examples: "trim ''ea'' = ''ea''" "trim ''hi'' = ''hi''" "trim ''fix it'' = ''fix it''"
  by (simp_all add: trim_def trimEnd_def trimStart_def isWhiteSpace_def)

lemma example_session_state:
  "run example_session initial_state =
     \<lparr>prompt = ''ea'', codeType = EXPERT_ADVISOR, isGenerating = False,
      currentCode = ''void OnTick() {}'', explanation = ''An empty EA.'',
      error = None, activeTab = chat_tab, history = [example_item],
      chatMessages =
        [\<lparr>msg_id = ''1000'', role = model,
          content = ''I've generated the Expert Advisor code based on your request. An empty EA.'',
          hasCodeUpdate = None, timestamp = 1000\<rparr>,
         \<lparr>msg_id = ''2000'', role = user, content = ''hi'', hasCodeUpdate = None,
          timestamp = 2000\<rparr>,
         \<lparr>msg_id = ''3001'', role = model, content = ''ok'', hasCodeUpdate = Some False,
          timestamp = 3000\<rparr>],
      chatInput = [], isChatLoading = False, uploadedFile = None, pdfContent = [],
      isParsingPdf = False, isDragging = False\<rparr>"
  by (simp add: example_session_def initial_state_def example_item_def example_result_def
      handleGenerate_def handleGenerate_settled_def handleChatSubmit_def
      handleChatSubmit_settled_def toString_examples trim_examples Let_def)

text \<open>
  The claim as stated has every operation keep the chat list or extend it at the
  end. After the example session (a generation, then one chat exchange) the list
  has three turns; restoring the generation from the history leaves a list that is
  neither the old one nor an extension of it.
\<close>

theorem chat_list_append_only_counterexample:
  "chatMessages (apply_event (Restore example_item 4000 4000) (run example_session initial_state))
     \<noteq> chatMessages (run example_session initial_state)
   \<and> take (length (chatMessages (run example_session initial_state)))
       (chatMessages (apply_event (Restore example_item 4000 4000)
          (run example_session initial_state)))
     \<noteq> chatMessages (run example_session initial_state)"
  by (simp add: example_session_state restoreFromHistory_def toString_examples)

section \<open>Identifiers of the chat turns\<close>

text \<open>
  Claim C3, at a failing input. The identifier of a turn is the clock reading at
  its creation. The reply takes the reading plus one, so that it differs from the
  user's turn created in the same millisecond; the error notice takes the reading
  itself. When the chat request is rejected within the millisecond of the submit,
  the user's turn and the error notice carry the same identifier.
\<close>

theorem chat_error_turn_repeats_identifier:
  "map msg_id (chatMessages (run
       [SetChatInput ''fix it'', ChatSubmit 5000 5000,
        ChatSubmitSettled (Inl (Error ''Failed to fetch'')) 5000 5000]
       (run example_session initial_state))) =
     [''1000'', ''2000'', ''3001'', ''5000'', ''5000'']
   \<and> \<not> distinct (map msg_id (chatMessages (run
       [SetChatInput ''fix it'', ChatSubmit 5000 5000,
        ChatSubmitSettled (Inl (Error ''Failed to fetch'')) 5000 5000]
       (run example_session initial_state))))"
  by (simp add: example_session_state handleChatSubmit_def handleChatSubmit_settled_def
      toString_examples trim_examples Let_def)

end
